theory Spec2Isabelle
  imports Complex_Main
begin

section \<open>Integral NDVI trend: the embedding of \<^verbatim>\<open>integral_trends/src/main.py\<close>\<close>

text \<open>
  The script builds an Earth Engine expression (the linear trend of annual NDVI integrals,
  masked by a Mann-Kendall test), exports it to cloud storage as a remote task, polls the
  task until its state is neither \<^verbatim>\<open>READY\<close> nor \<^verbatim>\<open>RUNNING\<close>, and returns the location of
  the output. The Earth Engine client and the \<^verbatim>\<open>landdegradation\<close> package are libraries
  outside the script: the rasters they compute, the coordinates they extract, the random
  draw and the answers of the remote task are parameters of the model (the record \<open>env\<close>
  below), and the calls the script makes on the task, the logger and the clock are recorded
  as a trace of events.
\<close>

subsection \<open>Constants\<close>

text \<open>Line 18: the cloud storage bucket for output.\<close>

definition BUCKET :: string where
  "BUCKET = ''ldmt''"

text \<open>
  Lines 48-51: the Kendall parameter values for a significance of 0.05, as the literal
  array of the source.
\<close>

definition coefficients :: "int list" where
  "coefficients = [4, 6, 9, 11, 14, 16, 19, 21, 24, 26, 31, 33, 36,
                   40, 43, 47, 50, 54, 59, 63, 66, 70, 75, 79, 84,
                   88, 93, 97, 102, 106, 111, 115, 120, 126, 131,
                   137, 142]"

text \<open>
  \<^verbatim>\<open>ee.Array.get\<close> with a one-dimensional position. The client only builds the expression
  and raises nothing; a position that is an index of the array denotes the element
  there, any other position denotes no element (\<open>None\<close>).
\<close>

definition array_get :: "int list \<Rightarrow> int \<Rightarrow> int option" where
  "array_get a i = (if 0 \<le> i \<and> i < int (length a) then Some (a ! nat i) else None)"

text \<open>Line 52: \<^verbatim>\<open>kendall = coefficients.get([period - 4])\<close>.\<close>

definition kendall :: "int \<Rightarrow> int option" where
  "kendall period = array_get coefficients (period - 4)"

subsection \<open>Pixels and the image operations of line 58\<close>

text \<open>
  A pixel of an Earth Engine image is a number or is masked (\<open>None\<close>); pixel values are
  modelled as real numbers. The operations act on each pixel on its own, as the Earth
  Engine reference describes them:
  \<^item> \<^verbatim>\<open>abs\<close> keeps the mask;
  \<^item> \<^verbatim>\<open>lte\<close> is 1 or 0, and masked where either operand is masked;
  \<^item> \<^verbatim>\<open>input.where(test, value)\<close> gives the value where the test is nonzero and the
    input elsewhere; where the test or the value is masked the input is used, and a masked
    input stays masked;
  \<^item> \<^verbatim>\<open>unmask(v)\<close> replaces every masked pixel by \<open>v\<close>.
\<close>

type_synonym pixel = "real option"

type_synonym 'px raster = "'px \<Rightarrow> pixel"

definition abs_px :: "pixel \<Rightarrow> pixel" where
  "abs_px a = (case a of None \<Rightarrow> None | Some x \<Rightarrow> Some \<bar>x\<bar>)"

definition lte_px :: "pixel \<Rightarrow> pixel \<Rightarrow> pixel" where
  "lte_px a b =
     (case a of None \<Rightarrow> None
      | Some x \<Rightarrow> (case b of None \<Rightarrow> None | Some y \<Rightarrow> Some (if x \<le> y then 1 else 0)))"

definition where_px :: "pixel \<Rightarrow> pixel \<Rightarrow> pixel \<Rightarrow> pixel" where
  "where_px input test v =
     (case input of None \<Rightarrow> None
      | Some x \<Rightarrow>
          (case test of None \<Rightarrow> Some x
           | Some t \<Rightarrow>
               (case v of None \<Rightarrow> Some x
                | Some y \<Rightarrow> if t \<noteq> 0 then Some y else Some x)))"

definition unmask_px :: "pixel \<Rightarrow> real \<Rightarrow> pixel" where
  "unmask_px a v = (case a of None \<Rightarrow> Some v | Some x \<Rightarrow> Some x)"

text \<open>
  Line 58 at one pixel: \<open>k\<close> is the Kendall parameter, \<open>slope\<close> the pixel of
  \<^verbatim>\<open>lf_trend.select('scale')\<close> and \<open>mk\<close> the pixel of \<^verbatim>\<open>mk_trend\<close>:
  \<^verbatim>\<open>slope.where(mk.abs().lte(kendall), -99999).where(slope.abs().lte(0.000001), -99999).unmask(-99999)\<close>.
\<close>

definition masked_pixel :: "real \<Rightarrow> pixel \<Rightarrow> pixel \<Rightarrow> pixel" where
  "masked_pixel k slope mk =
     unmask_px
       (where_px
          (where_px slope (lte_px (abs_px mk) (Some k)) (Some (- 99999)))
          (lte_px (abs_px slope) (Some 0.000001))
          (Some (- 99999)))
       (- 99999)"

text \<open>
  The image of line 58 as a raster. Where the position \<^verbatim>\<open>period - 4\<close> denotes no element
  of the table there is no Kendall parameter, and the expression denotes no raster.
\<close>

definition masked_image :: "int option \<Rightarrow> 'px raster \<Rightarrow> 'px raster \<Rightarrow> 'px raster option" where
  "masked_image kd slope mk =
     (case kd of None \<Rightarrow> None
      | Some k \<Rightarrow> Some (\<lambda>p. masked_pixel (real_of_int k) (slope p) (mk p)))"

subsection \<open>JSON values and the request parameters\<close>

datatype json =
    JString string
  | JNumber real
  | JArray "json list"
  | JObject "(string \<times> json) list"

text \<open>Line 92: the polygon used when the request gives none.\<close>

definition default_poly :: json where
  "default_poly =
    JObject [(''type'', JString ''FeatureCollection''),
          (''features'', JArray [JObject [(''type'', JString ''Feature''),
              (''id'', JString ''SEN''),
              (''properties'', JObject [(''name'', JString ''Senegal'')]),
              (''geometry'', JObject [(''type'', JString ''Polygon''),
                (''coordinates'', JArray [JArray [JArray [JNumber (-16.713729), JNumber 13.594959],
                    JArray [JNumber (-17.126107), JNumber 14.373516],
                    JArray [JNumber (-17.625043), JNumber 14.729541],
                    JArray [JNumber (-17.185173), JNumber 14.919477],
                    JArray [JNumber (-16.700706), JNumber 15.621527],
                    JArray [JNumber (-16.463098), JNumber 16.135036],
                    JArray [JNumber (-16.12069), JNumber 16.455663],
                    JArray [JNumber (-15.623666), JNumber 16.369337],
                    JArray [JNumber (-15.135737), JNumber 16.587282],
                    JArray [JNumber (-14.577348), JNumber 16.598264],
                    JArray [JNumber (-14.099521), JNumber 16.304302],
                    JArray [JNumber (-13.435738), JNumber 16.039383],
                    JArray [JNumber (-12.830658), JNumber 15.303692],
                    JArray [JNumber (-12.17075), JNumber 14.616834],
                    JArray [JNumber (-12.124887), JNumber 13.994727],
                    JArray [JNumber (-11.927716), JNumber 13.422075],
                    JArray [JNumber (-11.553398), JNumber 13.141214],
                    JArray [JNumber (-11.467899), JNumber 12.754519],
                    JArray [JNumber (-11.513943), JNumber 12.442988],
                    JArray [JNumber (-11.658301), JNumber 12.386583],
                    JArray [JNumber (-12.203565), JNumber 12.465648],
                    JArray [JNumber (-12.278599), JNumber 12.35444],
                    JArray [JNumber (-12.499051), JNumber 12.33209],
                    JArray [JNumber (-13.217818), JNumber 12.575874],
                    JArray [JNumber (-13.700476), JNumber 12.586183],
                    JArray [JNumber (-15.548477), JNumber 12.62817],
                    JArray [JNumber (-15.816574), JNumber 12.515567],
                    JArray [JNumber (-16.147717), JNumber 12.547762],
                    JArray [JNumber (-16.677452), JNumber 12.384852],
                    JArray [JNumber (-16.841525), JNumber 13.151394],
                    JArray [JNumber (-15.931296), JNumber 13.130284],
                    JArray [JNumber (-15.691001), JNumber 13.270353],
                    JArray [JNumber (-15.511813), JNumber 13.27857],
                    JArray [JNumber (-15.141163), JNumber 13.509512],
                    JArray [JNumber (-14.712197), JNumber 13.298207],
                    JArray [JNumber (-14.277702), JNumber 13.280585],
                    JArray [JNumber (-13.844963), JNumber 13.505042],
                    JArray [JNumber (-14.046992), JNumber 13.794068],
                    JArray [JNumber (-14.376714), JNumber 13.62568],
                    JArray [JNumber (-14.687031), JNumber 13.630357],
                    JArray [JNumber (-15.081735), JNumber 13.876492],
                    JArray [JNumber (-15.39877), JNumber 13.860369],
                    JArray [JNumber (-15.624596), JNumber 13.623587],
                    JArray [JNumber (-16.713729), JNumber 13.594959]]])])]])]"

text \<open>
  The request dictionary, by the keys that \<^verbatim>\<open>run\<close> reads; \<open>None\<close> is an absent key.
\<close>

record params =
  p_year_start :: "int option"
  p_year_end :: "int option"
  p_ENV :: "string option"
  p_EXECUTION_ID :: "string option"
  p_geojson :: "json option"

subsection \<open>Strings\<close>

text \<open>\<^verbatim>\<open>str\<close> of an integer: its decimal digits, with a minus sign when negative.\<close>

definition digit_char :: "nat \<Rightarrow> char" where
  "digit_char d = ''0123456789'' ! d"

fun str_nat :: "nat \<Rightarrow> string" where
  "str_nat n = (if n < 10 then [digit_char n] else str_nat (n div 10) @ [digit_char (n mod 10)])"

declare str_nat.simps [simp del]

definition str_int :: "int \<Rightarrow> string" where
  "str_int i = (if i < 0 then CHR ''-'' # str_nat (nat (- i)) else str_nat (nat i))"

text \<open>
  What \<^verbatim>\<open>format\<close> prints for the execution identifier: the string itself, or
  \<^verbatim>\<open>None\<close> for the value \<^verbatim>\<open>None\<close>.
\<close>

definition str_opt :: "string option \<Rightarrow> string" where
  "str_opt v = (case v of None \<Rightarrow> ''None'' | Some s \<Rightarrow> s)"

datatype py_error = IndexError

text \<open>
  \<^verbatim>\<open>template.format(args)\<close> for a template whose only braces are \<^verbatim>\<open>{}\<close> fields: each
  field takes the next argument, and a field with no argument left raises
  \<^verbatim>\<open>IndexError\<close> (\<open>None\<close>).
\<close>

fun format_str :: "string \<Rightarrow> string list \<Rightarrow> string option" where
  "format_str [] args = Some []"
| "format_str [c] args = Some [c]"
| "format_str (c # d # rest) args =
     (if c = CHR ''{'' \<and> d = CHR ''}''
      then (case args of
              [] \<Rightarrow> None
            | a # as \<Rightarrow> (case format_str rest as of None \<Rightarrow> None | Some s \<Rightarrow> Some (a @ s)))
      else (case format_str (d # rest) args of None \<Rightarrow> None | Some s \<Rightarrow> Some (c # s)))"

subsection \<open>The remote task, the logger and the clock\<close>

text \<open>
  The dictionary that \<^verbatim>\<open>task.status()\<close> returns, by the two keys the script reads.
\<close>

record task_status =
  state :: "string option"
  progress :: "real option"

text \<open>
  The collaborators: the slope band of the linear fit and the Mann-Kendall statistic of the
  annual integrals of a period, \<^verbatim>\<open>util.get_coords\<close>, the answer to the \<open>n\<close>-th call of
  \<^verbatim>\<open>task.status()\<close> (counted from 0), and the draw of \<^verbatim>\<open>random.randint\<close>.
\<close>

record ('px, 'r) env =
  lf_trend_scale :: "int \<Rightarrow> int \<Rightarrow> 'px raster"
  mann_kendall :: "int \<Rightarrow> int \<Rightarrow> 'px raster"
  get_coords :: "json \<Rightarrow> 'r"
  status :: "nat \<Rightarrow> task_status"
  randint :: "int \<Rightarrow> int \<Rightarrow> int"

text \<open>Lines 57-65: the export dictionary.\<close>

record ('px, 'r) export =
  image_raster :: "'px raster option"
  description :: "string option"
  fileNamePrefix :: "string option"
  bucket :: string
  maxPixels :: int
  scale :: int
  region :: 'r

text \<open>
  The calls with an effect outside the script, in the order they are made: the creation of
  the export task, its start, a status query (with its number), a progress report to the
  logger and a sleep.
\<close>

datatype ('px, 'r) event =
    ToCloudStorage "('px, 'r) export"
  | TaskStart
  | TaskStatus nat
  | SendProgress real
  | Sleep nat

subsection \<open>\<^verbatim>\<open>integral_trend\<close> and \<^verbatim>\<open>run\<close>\<close>

definition export_config ::
  "('px, 'r) env \<Rightarrow> int \<Rightarrow> int \<Rightarrow> json \<Rightarrow> string option \<Rightarrow> ('px, 'r) export" where
  "export_config env year_start year_end geojson EXECUTION_ID =
     (let period = year_end - year_start + 1 in
      \<lparr> image_raster =
          masked_image (kendall period)
            (lf_trend_scale env year_start year_end) (mann_kendall env year_start year_end),
        description = EXECUTION_ID,
        fileNamePrefix = EXECUTION_ID,
        bucket = BUCKET,
        maxPixels = 10000000000,
        scale = 250,
        region = get_coords env geojson \<rparr>)"

text \<open>
  Lines 73-79: the loop. \<open>n\<close> is the number of the next status query, \<open>task_state\<close> the
  state last read and \<open>tr\<close> the trace so far. Each pass queries the status for the
  progress (0.0 when the key is absent), reports it, queries the status again for the
  state and sleeps 5 seconds. The loop has no bound: a run that never leaves it is \<open>None\<close>.
\<close>

partial_function (option) poll_loop ::
  "(nat \<Rightarrow> task_status) \<Rightarrow> nat \<Rightarrow> string option \<Rightarrow> ('px, 'r) event list
     \<Rightarrow> ('px, 'r) event list option" where
  "poll_loop st n task_state tr =
     (if task_state = Some ''READY'' \<or> task_state = Some ''RUNNING''
      then poll_loop st (n + 2) (state (st (n + 1)))
             (tr @ [TaskStatus n,
                    SendProgress (case progress (st n) of None \<Rightarrow> 0 | Some p \<Rightarrow> p),
                    TaskStatus (n + 1),
                    Sleep 5])
      else Some tr)"

declare poll_loop.simps [code]

text \<open>
  Lines 20-81. The result is \<open>None\<close> when the loop never ends, and otherwise the value
  returned (or the exception raised) together with the trace.
\<close>

definition integral_trend ::
  "('px, 'r) env \<Rightarrow> int \<Rightarrow> int \<Rightarrow> json \<Rightarrow> string option
     \<Rightarrow> ((py_error + string) \<times> ('px, 'r) event list) option" where
  "integral_trend env year_start year_end geojson EXECUTION_ID =
     (case poll_loop (status env) 1 (state (status env 0))
             [ToCloudStorage (export_config env year_start year_end geojson EXECUTION_ID),
              TaskStart, TaskStatus 0] of
        None \<Rightarrow> None
      | Some tr \<Rightarrow>
          Some (case format_str ''https://{}.storage.googleapis.com/{}.tif''
                       [BUCKET, str_opt EXECUTION_ID] of
                  None \<Rightarrow> Inl IndexError
                | Some url \<Rightarrow> Inr url,
                tr))"

text \<open>Lines 83-96.\<close>

definition run ::
  "('px, 'r) env \<Rightarrow> params
     \<Rightarrow> ((py_error + string) \<times> ('px, 'r) event list) option" where
  "run env ps =
     (let year_start = (case p_year_start ps of None \<Rightarrow> 2003 | Some y \<Rightarrow> y);
          year_end = (case p_year_end ps of None \<Rightarrow> 2015 | Some y \<Rightarrow> y);
          EXECUTION_ID =
            (if p_ENV ps = Some ''dev'' then Some (str_int (randint env 1 1000000))
             else p_EXECUTION_ID ps);
          geojson = (case p_geojson ps of None \<Rightarrow> default_poly | Some g \<Rightarrow> g)
      in integral_trend env year_start year_end geojson EXECUTION_ID)"

subsection \<open>Reading a trace\<close>

text \<open>The loop condition of line 73.\<close>

definition pending :: "string option \<Rightarrow> bool" where
  "pending task_state = (task_state = Some ''READY'' \<or> task_state = Some ''RUNNING'')"

text \<open>
  The state that the loop condition tests for the \<open>k\<close>-th time (counted from 0): the
  script reads the state in the status queries 0, 2, 4, ... and the progress in the
  queries 1, 3, 5, ...
\<close>

definition tested :: "(nat \<Rightarrow> task_status) \<Rightarrow> nat \<Rightarrow> string option" where
  "tested st k = state (st (2 * k))"

text \<open>The events of the \<open>i\<close>-th pass through the loop (counted from 0).\<close>

definition pass :: "(nat \<Rightarrow> task_status) \<Rightarrow> nat \<Rightarrow> ('px, 'r) event list" where
  "pass st i =
     [TaskStatus (2 * i + 1),
      SendProgress (case progress (st (2 * i + 1)) of None \<Rightarrow> 0 | Some p \<Rightarrow> p),
      TaskStatus (2 * i + 2),
      Sleep 5]"

fun reports :: "('px, 'r) event list \<Rightarrow> real list" where
  "reports [] = []"
| "reports (SendProgress p # es) = p # reports es"
| "reports (e # es) = reports es"

fun sleeps :: "('px, 'r) event list \<Rightarrow> nat list" where
  "sleeps [] = []"
| "sleeps (Sleep d # es) = d # sleeps es"
| "sleeps (e # es) = sleeps es"

fun queries :: "('px, 'r) event list \<Rightarrow> nat list" where
  "queries [] = []"
| "queries (TaskStatus n # es) = n # queries es"
| "queries (e # es) = queries es"

fun exports :: "('px, 'r) event list \<Rightarrow> ('px, 'r) export list" where
  "exports [] = []"
| "exports (ToCloudStorage x # es) = x # exports es"
| "exports (e # es) = exports es"

fun starts :: "('px, 'r) event list \<Rightarrow> nat" where
  "starts [] = 0"
| "starts (TaskStart # es) = Suc (starts es)"
| "starts (e # es) = starts es"


text \<open>
  A status source scripted by a list: the \<open>n\<close>-th query is answered by the \<open>n\<close>-th
  entry, and every query past the list by the last entry (by an empty dictionary when the
  list is empty).
\<close>

definition scripted :: "task_status list \<Rightarrow> nat \<Rightarrow> task_status" where
  "scripted xs n =
     (if n < length xs then xs ! n
      else if xs = [] then \<lparr> state = None, progress = None \<rparr>
      else last xs)"

definition in_state :: "string \<Rightarrow> task_status" where
  "in_state s = \<lparr> state = Some s, progress = None \<rparr>"

text \<open>
  An environment for examples: no pixel is defined, the coordinates of a polygon are the
  polygon itself, the random draw is the lower bound, and the status queries are answered
  by the script \<open>xs\<close>.
\<close>

definition scripted_env :: "task_status list \<Rightarrow> (unit, json) env" where
  "scripted_env xs =
     \<lparr> lf_trend_scale = (\<lambda>year_start year_end p. None),
       mann_kendall = (\<lambda>year_start year_end p. None),
       get_coords = (\<lambda>geojson. geojson),
       status = scripted xs,
       randint = (\<lambda>lo hi. lo) \<rparr>"



text \<open>The member of a JSON object under a key.\<close>

fun json_get :: "json \<Rightarrow> string \<Rightarrow> json option" where
  "json_get (JObject kvs) k = map_of kvs k"
| "json_get j k = None"

text \<open>The name of the first feature of a feature collection.\<close>

definition first_feature_name :: "json \<Rightarrow> json option" where
  "first_feature_name j =
     (case json_get j ''features'' of
        Some (JArray (f # fs)) \<Rightarrow>
          (case json_get f ''properties'' of Some p \<Rightarrow> json_get p ''name'' | None \<Rightarrow> None)
      | _ \<Rightarrow> None)"

section \<open>Properties\<close>

subsection \<open>The loop and the trace of a run\<close>

lemma format_location:
  "format_str ''https://{}.storage.googleapis.com/{}.tif'' [b, e]
     = Some (''https://'' @ b @ ''.storage.googleapis.com/'' @ e @ ''.tif'')"
  by simp

lemma poll_loop_stop: "\<not> pending s \<Longrightarrow> poll_loop st n s tr = Some tr"
  by (subst poll_loop.simps) (simp add: pending_def)

lemma poll_loop_pass:
  "pending (tested st j) \<Longrightarrow>
   poll_loop st (2 * j + 1) (tested st j) tr
     = poll_loop st (2 * Suc j + 1) (tested st (Suc j)) (tr @ pass st j)"
  by (subst poll_loop.simps) (simp add: pending_def tested_def pass_def)

lemma poll_loop_passes:
  "(\<forall>i<k. pending (tested st (j + i))) \<Longrightarrow>
   poll_loop st (2 * j + 1) (tested st j) tr
     = poll_loop st (2 * (j + k) + 1) (tested st (j + k))
         (tr @ concat (map (pass st) [j..<j + k]))"
proof (induction k arbitrary: j tr)
  case 0
  show ?case by simp
next
  case (Suc k)
  from Suc.prems have first: "pending (tested st j)"
    by (metis add.right_neutral zero_less_Suc)
  from Suc.prems have rest: "\<forall>i<k. pending (tested st (Suc j + i))"
    by auto
  have "poll_loop st (2 * j + 1) (tested st j) tr
          = poll_loop st (2 * Suc j + 1) (tested st (Suc j)) (tr @ pass st j)"
    by (rule poll_loop_pass [OF first])
  also have "\<dots> = poll_loop st (2 * (Suc j + k) + 1) (tested st (Suc j + k))
                     ((tr @ pass st j) @ concat (map (pass st) [Suc j..<Suc j + k]))"
    by (rule Suc.IH [OF rest])
  also have "(tr @ pass st j) @ concat (map (pass st) [Suc j..<Suc j + k])
               = tr @ concat (map (pass st) [j..<j + Suc k])"
    by (simp add: upt_conv_Cons del: upt_Suc)
  finally show ?case by simp
qed

lemma poll_loop_returns:
  assumes "\<forall>i<k. pending (tested st i)" and "\<not> pending (tested st k)"
  shows "poll_loop st 1 (state (st 0)) tr = Some (tr @ concat (map (pass st) [0..<k]))"
proof -
  have "poll_loop st (2 * 0 + 1) (tested st 0) tr
          = poll_loop st (2 * (0 + k) + 1) (tested st (0 + k))
              (tr @ concat (map (pass st) [0..<0 + k]))"
    by (rule poll_loop_passes) (simp add: assms(1))
  then have "poll_loop st 1 (state (st 0)) tr
          = poll_loop st (2 * k + 1) (tested st k) (tr @ concat (map (pass st) [0..<k]))"
    by (simp add: tested_def)
  then show ?thesis
    by (simp add: poll_loop_stop [OF assms(2)])
qed




lemma integral_trend_returns:
  assumes "\<forall>i<k. pending (tested (status env) i)" and "\<not> pending (tested (status env) k)"
  shows "integral_trend env year_start year_end geojson EXECUTION_ID
           = Some (Inr (''https://'' @ BUCKET @ ''.storage.googleapis.com/''
                          @ str_opt EXECUTION_ID @ ''.tif''),
                   ToCloudStorage (export_config env year_start year_end geojson EXECUTION_ID)
                     # TaskStart # TaskStatus 0 # concat (map (pass (status env)) [0..<k]))"
  unfolding integral_trend_def
  by (simp only: poll_loop_returns [OF assms] format_location option.case append.simps)



lemma reports_append: "reports (xs @ ys) = reports xs @ reports ys"
  by (induction xs rule: reports.induct) simp_all

lemma sleeps_append: "sleeps (xs @ ys) = sleeps xs @ sleeps ys"
  by (induction xs rule: sleeps.induct) simp_all

lemma queries_append: "queries (xs @ ys) = queries xs @ queries ys"
  by (induction xs rule: queries.induct) simp_all

lemma exports_append: "exports (xs @ ys) = exports xs @ exports ys"
  by (induction xs rule: exports.induct) simp_all

lemma starts_append: "starts (xs @ ys) = starts xs + starts ys"
  by (induction xs rule: starts.induct) simp_all

lemma reports_passes:
  "reports (concat (map (pass st) [0..<k]))
     = map (\<lambda>i. case progress (st (2 * i + 1)) of None \<Rightarrow> 0 | Some p \<Rightarrow> p) [0..<k]"
  by (induction k) (simp_all add: reports_append pass_def)

lemma sleeps_passes: "sleeps (concat (map (pass st) [0..<k])) = replicate k 5"
  by (induction k) (simp_all add: sleeps_append pass_def replicate_append_same)

lemma queries_passes: "queries (concat (map (pass st) [0..<k])) = [1..<2 * k + 1]"
  by (induction k) (simp_all add: queries_append pass_def)

lemma exports_passes: "exports (concat (map (pass st) [0..<k])) = []"
  by (induction k) (simp_all add: exports_append pass_def)

lemma starts_passes: "starts (concat (map (pass st) [0..<k])) = 0"
  by (induction k) (simp_all add: starts_append pass_def)

text \<open>
  A run that leaves the loop at the \<open>k\<close>-th test of the state, read through the
  projections of its result: the value returned, the progress reports, the sleeps, the
  status queries, the export created and the number of starts.
\<close>

lemma integral_trend_trace:
  assumes "\<forall>i<k. pending (tested (status env) i)" and "\<not> pending (tested (status env) k)"
  shows "map_option fst (integral_trend env year_start year_end geojson EXECUTION_ID)
           = Some (Inr (''https://'' @ BUCKET @ ''.storage.googleapis.com/''
                          @ str_opt EXECUTION_ID @ ''.tif''))"
    and "map_option (reports \<circ> snd) (integral_trend env year_start year_end geojson EXECUTION_ID)
           = Some (map (\<lambda>i. case progress (status env (2 * i + 1)) of None \<Rightarrow> 0 | Some p \<Rightarrow> p)
                     [0..<k])"
    and "map_option (sleeps \<circ> snd) (integral_trend env year_start year_end geojson EXECUTION_ID)
           = Some (replicate k 5)"
    and "map_option (queries \<circ> snd) (integral_trend env year_start year_end geojson EXECUTION_ID)
           = Some [0..<2 * k + 1]"
    and "map_option (exports \<circ> snd) (integral_trend env year_start year_end geojson EXECUTION_ID)
           = Some [export_config env year_start year_end geojson EXECUTION_ID]"
    and "map_option (starts \<circ> snd) (integral_trend env year_start year_end geojson EXECUTION_ID)
           = Some 1"
  by (simp_all add: integral_trend_returns [OF assms] reports_passes sleeps_passes
        queries_passes exports_passes starts_passes upt_conv_Cons del: upt_Suc)

lemma integral_trend_no_error:
  "integral_trend env year_start year_end geojson EXECUTION_ID \<noteq> Some (Inl e, tr)"
  by (simp add: integral_trend_def format_location del: format_str.simps split: option.splits)


lemma run_eq:
  "run env ps =
     integral_trend env
       (case p_year_start ps of None \<Rightarrow> 2003 | Some y \<Rightarrow> y)
       (case p_year_end ps of None \<Rightarrow> 2015 | Some y \<Rightarrow> y)
       (case p_geojson ps of None \<Rightarrow> default_poly | Some g \<Rightarrow> g)
       (if p_ENV ps = Some ''dev'' then Some (str_int (randint env 1 1000000))
        else p_EXECUTION_ID ps)"
  by (simp add: run_def Let_def)





lemmas example_simps =
  tested_def scripted_env_def scripted_def in_state_def pending_def BUCKET_def str_opt_def
  less_Suc_eq numeral_2_eq_2 numeral_3_eq_3

subsection \<open>The masking rule\<close>

text \<open>
  The image the script exports is the raster of \<open>masked_pixel\<close>, with the Kendall
  parameter of the period.
\<close>

lemma export_image:
  "kendall (year_end - year_start + 1) = Some c \<Longrightarrow>
   image_raster (export_config env year_start year_end geojson EXECUTION_ID)
     = Some (\<lambda>p. masked_pixel (real_of_int c)
                     (lf_trend_scale env year_start year_end p)
                     (mann_kendall env year_start year_end p))"
  by (simp add: export_config_def masked_image_def)

text \<open>
  Claim C1, as amended. At a pixel where the slope and the statistic are both defined, the
  masked raster holds the slope if the absolute statistic is strictly greater than the
  critical value and the absolute slope is strictly greater than 1e-6, and the sentinel
  -99999 otherwise (so also at either boundary). A pixel whose slope is missing holds the
  sentinel. A pixel whose slope is defined and whose statistic is missing is decided by the
  slope alone: it holds the slope if the absolute slope is strictly greater than 1e-6, and
  the sentinel otherwise.
\<close>

theorem masked_pixel_rule:
  "masked_pixel k (Some s) (Some z)
     = Some (if k < \<bar>z\<bar> \<and> 0.000001 < \<bar>s\<bar> then s else - 99999)
   \<and> masked_pixel k None mk = Some (- 99999)
   \<and> masked_pixel k (Some s) None = Some (if 0.000001 < \<bar>s\<bar> then s else - 99999)"
  by (simp add: masked_pixel_def unmask_px_def where_px_def lte_px_def abs_px_def)

text \<open>
  Claim C1, as stated, fails at a pixel with slope 0.002 and no statistic, for the critical
  value 40: the first \<^verbatim>\<open>where\<close> has a masked test and leaves the slope, which is not
  negligible, so the pixel holds 0.002 and not the sentinel.
\<close>

theorem masked_pixel_counterexample:
  "masked_pixel 40 (Some 0.002) None = Some 0.002
   \<and> masked_pixel 40 (Some 0.002) None \<noteq> Some (- 99999)"
  by (simp add: masked_pixel_def unmask_px_def where_px_def lte_px_def abs_px_def)

subsection \<open>The critical-value table\<close>

lemma length_coefficients: "length coefficients = 37"
  by (simp add: coefficients_def)

text \<open>
  Claim C3, as amended. The table has 37 entries. For every period length from 4 to 40 the
  lookup gives the constant at index \<open>p - 4\<close> of the table; for every other period length
  the position \<open>p - 4\<close> is outside the table and the lookup gives no value.
\<close>

theorem kendall_table:
  "(4 \<le> p \<and> p \<le> 40 \<longrightarrow> kendall p = Some (coefficients ! nat (p - 4)))
   \<and> (p < 4 \<or> 40 < p \<longrightarrow> kendall p = None)
   \<and> length coefficients = 37"
  by (auto simp: kendall_def array_get_def length_coefficients)

text \<open>The period lengths 4 and 40 are the ends of the table; 3 and 41 are outside.\<close>

theorem kendall_table_witness:
  "kendall 4 = Some 4 \<and> kendall 40 = Some 142 \<and> kendall 3 = None \<and> kendall 41 = None"
  using kendall_table [of 4] kendall_table [of 40] kendall_table [of 3] kendall_table [of 41]
  by (simp add: coefficients_def)

text \<open>
  Claim C3, as stated, fails: the table does not have 36 entries, and the period length
  40, above 39, has the critical value 142.
\<close>

theorem kendall_table_counterexample:
  "length coefficients \<noteq> 36 \<and> kendall 40 = Some 142"
  by (simp add: kendall_def array_get_def coefficients_def)

text \<open>
  Claim C4, as amended. The lookup maps period length 4 to the critical value 4, period
  length 7 to 11 and period length 13 to 26; the values 14 and 40 are those of the period
  lengths 8 and 17.
\<close>

theorem kendall_examples:
  "kendall 4 = Some 4 \<and> kendall 7 = Some 11 \<and> kendall 13 = Some 26
   \<and> kendall 8 = Some 14 \<and> kendall 17 = Some 40"
  by (simp add: kendall_def array_get_def coefficients_def)

text \<open>
  Claim C4, as stated, fails: period length 7 does not map to 14 and period length 13
  does not map to 40.
\<close>

theorem kendall_examples_counterexample:
  "kendall 7 \<noteq> Some 14 \<and> kendall 13 \<noteq> Some 40"
  by (simp add: kendall_def array_get_def coefficients_def)

subsection \<open>The end of the export\<close>

text \<open>
  Claim C2, as amended. When the state that ends the loop is \<^verbatim>\<open>FAILED\<close> or
  \<^verbatim>\<open>CANCELLED\<close>, the script raises nothing: it stops polling and returns the same
  location string as for a completed export, after one pass through the loop for each
  earlier test of the state.
\<close>

theorem failed_or_cancelled_returns_location:
  assumes "\<forall>i<k. pending (tested (status env) i)"
    and "tested (status env) k = Some ''FAILED'' \<or> tested (status env) k = Some ''CANCELLED''"
  shows "integral_trend env year_start year_end geojson EXECUTION_ID
           = Some (Inr (''https://'' @ BUCKET @ ''.storage.googleapis.com/''
                          @ str_opt EXECUTION_ID @ ''.tif''),
                   ToCloudStorage (export_config env year_start year_end geojson EXECUTION_ID)
                     # TaskStart # TaskStatus 0 # concat (map (pass (status env)) [0..<k]))"
proof -
  from assms(2) have "\<not> pending (tested (status env) k)"
    by (auto simp: pending_def)
  with assms(1) show ?thesis
    by (rule integral_trend_returns)
qed

text \<open>A task that is cancelled while running: the script returns the location.\<close>

theorem failed_or_cancelled_returns_location_witness:
  "map_option fst
     (integral_trend
        (scripted_env [in_state ''READY'', in_state ''RUNNING'', in_state ''CANCELLED''])
        2003 2015 default_poly (Some ''42''))
     = Some (Inr ''https://ldmt.storage.googleapis.com/42.tif'')"
  using failed_or_cancelled_returns_location
    [of 1 "scripted_env [in_state ''READY'', in_state ''RUNNING'', in_state ''CANCELLED'']"
        2003 2015 default_poly "Some ''42''"]
  by (simp add: example_simps)

text \<open>
  Claim C2, as stated, fails: for status queries answered \<^verbatim>\<open>READY\<close>, \<^verbatim>\<open>RUNNING\<close>,
  \<^verbatim>\<open>FAILED\<close> the call returns a location string.
\<close>

theorem failed_returns_location_counterexample:
  "map_option fst
     (integral_trend
        (scripted_env [in_state ''READY'', in_state ''RUNNING'', in_state ''FAILED''])
        2003 2015 default_poly (Some ''42''))
     = Some (Inr ''https://ldmt.storage.googleapis.com/42.tif'')"
  using integral_trend_returns
    [of 1 "scripted_env [in_state ''READY'', in_state ''RUNNING'', in_state ''FAILED'']"
        2003 2015 default_poly "Some ''42''"]
  by (simp add: example_simps)

subsection \<open>Progress reports\<close>

text \<open>
  Claim C5, as amended. Every pass through the loop, entered when the state last read is
  \<^verbatim>\<open>READY\<close> or \<^verbatim>\<open>RUNNING\<close>, sends exactly one progress report, with the progress of a
  status query of its own (0.0 when that answer has none), and reads the next state from a
  further query: a run that leaves the loop at the \<open>k\<close>-th test of the state has made
  the status queries 0 to \<open>2 * k\<close> and sent \<open>k\<close> reports, the \<open>i\<close>-th with the
  progress of query \<open>2 * i + 1\<close>. In particular, when the states the loop condition
  tests are \<^verbatim>\<open>READY\<close>, \<^verbatim>\<open>RUNNING\<close>, \<^verbatim>\<open>RUNNING\<close>, \<^verbatim>\<open>COMPLETED\<close>, the script sends
  exactly 3 reports and returns the output location.
\<close>

theorem progress_reports:
  "((\<forall>i<k. pending (tested (status env) i)) \<and> \<not> pending (tested (status env) k) \<longrightarrow>
      map_option (reports \<circ> snd) (integral_trend env year_start year_end geojson EXECUTION_ID)
        = Some (map (\<lambda>i. case progress (status env (2 * i + 1)) of None \<Rightarrow> 0 | Some p \<Rightarrow> p)
                  [0..<k])
      \<and> map_option (queries \<circ> snd)
           (integral_trend env year_start year_end geojson EXECUTION_ID)
          = Some [0..<2 * k + 1])
   \<and> (tested (status env) 0 = Some ''READY'' \<and> tested (status env) 1 = Some ''RUNNING''
        \<and> tested (status env) 2 = Some ''RUNNING'' \<and> tested (status env) 3 = Some ''COMPLETED''
      \<longrightarrow>
      map_option (length \<circ> reports \<circ> snd)
          (integral_trend env year_start year_end geojson EXECUTION_ID) = Some 3
      \<and> map_option fst (integral_trend env year_start year_end geojson EXECUTION_ID)
          = Some (Inr (''https://'' @ BUCKET @ ''.storage.googleapis.com/''
                         @ str_opt EXECUTION_ID @ ''.tif'')))"
proof (intro conjI impI)
  assume h: "(\<forall>i<k. pending (tested (status env) i)) \<and> \<not> pending (tested (status env) k)"
  then have p: "\<forall>i<k. pending (tested (status env) i)"
    and q: "\<not> pending (tested (status env) k)"
    by simp_all
  show "map_option (reports \<circ> snd)
                 (integral_trend env year_start year_end geojson EXECUTION_ID)
        = Some (map (\<lambda>i. case progress (status env (2 * i + 1)) of None \<Rightarrow> 0 | Some p \<Rightarrow> p)
                  [0..<k])"
    by (rule integral_trend_trace(2) [OF p q])
  show "map_option (queries \<circ> snd)
           (integral_trend env year_start year_end geojson EXECUTION_ID)
          = Some [0..<2 * k + 1]"
    by (rule integral_trend_trace(4) [OF p q])
next
  assume h: "tested (status env) 0 = Some ''READY'' \<and> tested (status env) 1 = Some ''RUNNING''
        \<and> tested (status env) 2 = Some ''RUNNING'' \<and> tested (status env) 3 = Some ''COMPLETED''"
  have p: "\<forall>i<3. pending (tested (status env) i)"
    using h by (simp add: pending_def less_Suc_eq numeral_3_eq_3 numeral_2_eq_2)
  have q: "\<not> pending (tested (status env) 3)"
    using h by (simp add: pending_def)
  show "map_option (length \<circ> reports \<circ> snd)
          (integral_trend env year_start year_end geojson EXECUTION_ID) = Some 3"
    using integral_trend_trace(2) [OF p q, of year_start year_end geojson EXECUTION_ID]
    by (cases "integral_trend env year_start year_end geojson EXECUTION_ID") auto
  show "map_option fst (integral_trend env year_start year_end geojson EXECUTION_ID)
          = Some (Inr (''https://'' @ BUCKET @ ''.storage.googleapis.com/''
                         @ str_opt EXECUTION_ID @ ''.tif''))"
    by (rule integral_trend_trace(1) [OF p q])
qed

text \<open>
  Seven status queries: the states tested are those of the queries 0, 2, 4 and 6, and the
  reports carry the progress of the queries 1, 3 and 5.
\<close>

theorem progress_reports_witness:
  "map_option (reports \<circ> snd)
     (integral_trend
        (scripted_env
           [in_state ''READY'',
            \<lparr> state = Some ''READY'', progress = Some 0.1 \<rparr>,
            in_state ''RUNNING'',
            \<lparr> state = Some ''RUNNING'', progress = None \<rparr>,
            in_state ''RUNNING'',
            \<lparr> state = Some ''RUNNING'', progress = Some 0.9 \<rparr>,
            in_state ''COMPLETED''])
        2003 2015 default_poly (Some ''42''))
     = Some [0.1, 0, 0.9]
   \<and> map_option fst
     (integral_trend
        (scripted_env
           [in_state ''READY'',
            \<lparr> state = Some ''READY'', progress = Some 0.1 \<rparr>,
            in_state ''RUNNING'',
            \<lparr> state = Some ''RUNNING'', progress = None \<rparr>,
            in_state ''RUNNING'',
            \<lparr> state = Some ''RUNNING'', progress = Some 0.9 \<rparr>,
            in_state ''COMPLETED''])
        2003 2015 default_poly (Some ''42''))
     = Some (Inr ''https://ldmt.storage.googleapis.com/42.tif'')"
  using progress_reports
    [of 3 "scripted_env
           [in_state ''READY'',
            \<lparr> state = Some ''READY'', progress = Some 0.1 \<rparr>,
            in_state ''RUNNING'',
            \<lparr> state = Some ''RUNNING'', progress = None \<rparr>,
            in_state ''RUNNING'',
            \<lparr> state = Some ''RUNNING'', progress = Some 0.9 \<rparr>,
            in_state ''COMPLETED'']"
        2003 2015 default_poly "Some ''42''"]
  by (simp add: example_simps upt_conv_Cons del: upt_Suc)

text \<open>
  Claim C5, as stated, fails when the scripted sequence \<^verbatim>\<open>READY\<close>, \<^verbatim>\<open>RUNNING\<close>,
  \<^verbatim>\<open>RUNNING\<close>, \<^verbatim>\<open>COMPLETED\<close> is what successive calls of \<^verbatim>\<open>task.status()\<close> return: the
  first pass uses the second and third answer, the second pass reads its progress from the
  fourth, and the script sends 2 reports. It fails as well when the sequence is the status
  of the task from one sleep to the next (the three queries before the first sleep are
  answered \<^verbatim>\<open>READY\<close>, and the two queries after each sleep by the next status): the
  script sends 4 reports.
\<close>

theorem progress_reports_counterexample:
  "map_option (reports \<circ> snd)
     (integral_trend
        (scripted_env
           [in_state ''READY'', in_state ''RUNNING'', in_state ''RUNNING'',
            in_state ''COMPLETED''])
        2003 2015 default_poly (Some ''42''))
     = Some [0, 0]
   \<and> map_option (reports \<circ> snd)
     (integral_trend
        (scripted_env
           [in_state ''READY'', in_state ''READY'', in_state ''READY'',
            in_state ''RUNNING'', in_state ''RUNNING'',
            in_state ''RUNNING'', in_state ''RUNNING'',
            in_state ''COMPLETED'', in_state ''COMPLETED''])
        2003 2015 default_poly (Some ''42''))
     = Some [0, 0, 0, 0]"
  using integral_trend_trace(2)
    [of 2 "scripted_env
           [in_state ''READY'', in_state ''RUNNING'', in_state ''RUNNING'',
            in_state ''COMPLETED'']"
        2003 2015 default_poly "Some ''42''"]
    integral_trend_trace(2)
    [of 4 "scripted_env
           [in_state ''READY'', in_state ''READY'', in_state ''READY'',
            in_state ''RUNNING'', in_state ''RUNNING'',
            in_state ''RUNNING'', in_state ''RUNNING'',
            in_state ''COMPLETED'', in_state ''COMPLETED'']"
        2003 2015 default_poly "Some ''42''"]
  by (simp add: example_simps eval_nat_numeral upt_conv_Cons del: upt_Suc)

subsection \<open>The output location\<close>

text \<open>
  Claim C6. When the state that ends the loop is \<^verbatim>\<open>COMPLETED\<close>, the function returns
  exactly the string \<^verbatim>\<open>https://{bucket}.storage.googleapis.com/{executionId}.tif\<close>, built
  from the constant \<^verbatim>\<open>BUCKET\<close> and the execution identifier; the bucket is
  \<^verbatim>\<open>ldmt\<close>, and for the execution identifier \<^verbatim>\<open>42\<close> the location is exactly
  \<^verbatim>\<open>https://ldmt.storage.googleapis.com/42.tif\<close>.
\<close>

theorem output_location:
  assumes "\<forall>i<k. pending (tested (status env) i)"
    and "tested (status env) k = Some ''COMPLETED''"
  shows "map_option fst (integral_trend env year_start year_end geojson EXECUTION_ID)
           = Some (Inr (''https://'' @ BUCKET @ ''.storage.googleapis.com/''
                          @ str_opt EXECUTION_ID @ ''.tif''))
         \<and> map_option fst (integral_trend env year_start year_end geojson (Some ''42''))
           = Some (Inr ''https://ldmt.storage.googleapis.com/42.tif'')
         \<and> BUCKET = ''ldmt''"
proof -
  from assms(2) have q: "\<not> pending (tested (status env) k)"
    by (simp add: pending_def)
  show ?thesis
    by (simp add: integral_trend_trace(1) [OF assms(1) q] BUCKET_def str_opt_def)
qed

text \<open>A task that completes after one pass through the loop.\<close>

theorem output_location_witness:
  "map_option fst
     (integral_trend (scripted_env [in_state ''READY'', in_state ''RUNNING'', in_state ''COMPLETED''])
        2001 2010 default_poly (Some ''job-7''))
     = Some (Inr ''https://ldmt.storage.googleapis.com/job-7.tif'')
   \<and> map_option fst
     (integral_trend (scripted_env [in_state ''READY'', in_state ''RUNNING'', in_state ''COMPLETED''])
        2001 2010 default_poly (Some ''42''))
     = Some (Inr ''https://ldmt.storage.googleapis.com/42.tif'')"
  using output_location
    [of 1 "scripted_env [in_state ''READY'', in_state ''RUNNING'', in_state ''COMPLETED'']"
        2001 2010 default_poly "Some ''job-7''"]
  by (simp add: example_simps)

subsection \<open>A period outside the table\<close>

text \<open>
  Claim C7, as amended. For a request whose period length is outside the table the script
  raises no error: the export task is created and started as for any other period (the
  image it exports then has no Kendall parameter and denotes no raster), it is polled in
  the same way, and once the state read is neither \<^verbatim>\<open>READY\<close> nor \<^verbatim>\<open>RUNNING\<close> the
  location string is returned.
\<close>

theorem unsupported_period_still_exports:
  assumes "kendall (year_end - year_start + 1) = None"
    and "\<forall>i<k. pending (tested (status env) i)"
    and "\<not> pending (tested (status env) k)"
  shows "integral_trend env year_start year_end geojson EXECUTION_ID
           = Some (Inr (''https://'' @ BUCKET @ ''.storage.googleapis.com/''
                          @ str_opt EXECUTION_ID @ ''.tif''),
                   ToCloudStorage (export_config env year_start year_end geojson EXECUTION_ID)
                     # TaskStart # TaskStatus 0 # concat (map (pass (status env)) [0..<k]))
         \<and> image_raster (export_config env year_start year_end geojson EXECUTION_ID) = None"
  using assms by (simp add: integral_trend_returns export_config_def masked_image_def)

text \<open>
  The years 2003 to 2004 give the period length 2, below the table; the remote task is
  reported \<^verbatim>\<open>FAILED\<close> at the first query.
\<close>

theorem unsupported_period_still_exports_witness:
  "integral_trend (scripted_env [in_state ''FAILED'']) 2003 2004 default_poly (Some ''42'')
     = Some (Inr ''https://ldmt.storage.googleapis.com/42.tif'',
             [ToCloudStorage
                (export_config (scripted_env [in_state ''FAILED'']) 2003 2004 default_poly
                   (Some ''42'')),
              TaskStart, TaskStatus 0])
   \<and> image_raster
        (export_config (scripted_env [in_state ''FAILED'']) 2003 2004 default_poly (Some ''42''))
      = None"
  using unsupported_period_still_exports
    [of 2004 2003 0 "scripted_env [in_state ''FAILED'']" default_poly "Some ''42''"]
  by (simp add: example_simps kendall_def array_get_def)

text \<open>
  Claim C7, as stated, fails for the years 2015 to 2015 (period length 1, which has no
  critical value): the export task is started once and the call returns a location.
\<close>

theorem unsupported_period_counterexample:
  "kendall (2015 - 2015 + 1) = None
   \<and> map_option fst
       (integral_trend (scripted_env [in_state ''READY'', in_state ''READY'', in_state ''COMPLETED''])
          2015 2015 default_poly (Some ''42''))
     = Some (Inr ''https://ldmt.storage.googleapis.com/42.tif'')
   \<and> map_option (starts \<circ> snd)
       (integral_trend (scripted_env [in_state ''READY'', in_state ''READY'', in_state ''COMPLETED''])
          2015 2015 default_poly (Some ''42''))
     = Some 1"
  using integral_trend_trace(1)
    [of 1 "scripted_env [in_state ''READY'', in_state ''READY'', in_state ''COMPLETED'']"
        2015 2015 default_poly "Some ''42''"]
    integral_trend_trace(6)
    [of 1 "scripted_env [in_state ''READY'', in_state ''READY'', in_state ''COMPLETED'']"
        2015 2015 default_poly "Some ''42''"]
  by (simp add: example_simps kendall_def array_get_def)

subsection \<open>Termination of the loop\<close>




subsection \<open>The entry point\<close>

text \<open>
  Claim C9. When the environment flag is not \<^verbatim>\<open>dev\<close> and the request has no execution
  identifier, \<^verbatim>\<open>run\<close> proceeds with the identifier \<^verbatim>\<open>None\<close> (the description and the file
  name prefix of the export are \<^verbatim>\<open>None\<close>) and, once the loop ends, returns the location
  \<^verbatim>\<open>https://ldmt.storage.googleapis.com/None.tif\<close>.
\<close>

theorem run_without_execution_id:
  assumes "p_ENV ps \<noteq> Some ''dev''"
    and "p_EXECUTION_ID ps = None"
    and "\<forall>i<k. pending (tested (status env) i)"
    and "\<not> pending (tested (status env) k)"
  shows "map_option fst (run env ps)
           = Some (Inr ''https://ldmt.storage.googleapis.com/None.tif'')
         \<and> map_option (map description \<circ> exports \<circ> snd) (run env ps) = Some [None]
         \<and> map_option (map fileNamePrefix \<circ> exports \<circ> snd) (run env ps) = Some [None]"
proof -
  let ?r = "integral_trend env
       (case p_year_start ps of None \<Rightarrow> 2003 | Some y \<Rightarrow> y)
       (case p_year_end ps of None \<Rightarrow> 2015 | Some y \<Rightarrow> y)
       (case p_geojson ps of None \<Rightarrow> default_poly | Some g \<Rightarrow> g)
       None"
  have run: "run env ps = ?r"
    using assms(1,2) by (simp add: run_eq)
  have "map_option fst ?r = Some (Inr ''https://ldmt.storage.googleapis.com/None.tif'')"
    by (simp add: integral_trend_returns [OF assms(3,4)] BUCKET_def str_opt_def)
  moreover have "map_option (exports \<circ> snd) ?r
      = Some [export_config env
       (case p_year_start ps of None \<Rightarrow> 2003 | Some y \<Rightarrow> y)
       (case p_year_end ps of None \<Rightarrow> 2015 | Some y \<Rightarrow> y)
       (case p_geojson ps of None \<Rightarrow> default_poly | Some g \<Rightarrow> g)
       None]"
    by (rule integral_trend_trace(5) [OF assms(3,4)])
  ultimately show ?thesis
    unfolding run by (cases ?r) (auto simp: export_config_def)
qed

text \<open>A request of the production environment with no execution identifier.\<close>

theorem run_without_execution_id_witness:
  "map_option fst
     (run (scripted_env [in_state ''READY'', in_state ''RUNNING'', in_state ''COMPLETED''])
        \<lparr> p_year_start = Some 2001, p_year_end = Some 2010, p_ENV = Some ''prod'',
          p_EXECUTION_ID = None, p_geojson = None \<rparr>)
     = Some (Inr ''https://ldmt.storage.googleapis.com/None.tif'')"
  using run_without_execution_id
    [of "\<lparr> p_year_start = Some 2001, p_year_end = Some 2010, p_ENV = Some ''prod'',
           p_EXECUTION_ID = None, p_geojson = None \<rparr>"
        1 "scripted_env [in_state ''READY'', in_state ''RUNNING'', in_state ''COMPLETED'']"]
  by (simp add: example_simps)

text \<open>
  Claim C10. When the request has no area of interest, \<^verbatim>\<open>run\<close> behaves as for the
  hard-coded default polygon, a feature collection whose feature is named Senegal: the
  region of the export is taken from that polygon, and the call raises no error.
\<close>

theorem run_default_polygon:
  assumes "p_geojson ps = None"
  shows "run env ps = run env (ps\<lparr> p_geojson := Some default_poly \<rparr>)
         \<and> ((\<forall>i<k. pending (tested (status env) i)) \<and> \<not> pending (tested (status env) k) \<longrightarrow>
              map_option (map region \<circ> exports \<circ> snd) (run env ps)
                = Some [get_coords env default_poly]
              \<and> map_option (isl \<circ> fst) (run env ps) = Some False)
         \<and> (\<forall>e tr. run env ps \<noteq> Some (Inl e, tr))
         \<and> json_get default_poly ''type'' = Some (JString ''FeatureCollection'')
         \<and> first_feature_name default_poly = Some (JString ''Senegal'')"
proof (intro conjI impI)
  show "run env ps = run env (ps\<lparr> p_geojson := Some default_poly \<rparr>)"
    using assms by (simp add: run_eq)
  show "\<forall>e tr. run env ps \<noteq> Some (Inl e, tr)"
    by (simp only: run_eq integral_trend_no_error not_False_eq_True simp_thms)
  show "json_get default_poly ''type'' = Some (JString ''FeatureCollection'')"
    by (simp add: default_poly_def)
  show "first_feature_name default_poly = Some (JString ''Senegal'')"
    by (simp add: default_poly_def first_feature_name_def)
next
  assume h: "(\<forall>i<k. pending (tested (status env) i)) \<and> \<not> pending (tested (status env) k)"
  then have p: "\<forall>i<k. pending (tested (status env) i)"
    and q: "\<not> pending (tested (status env) k)"
    by simp_all
  let ?id = "if p_ENV ps = Some ''dev'' then Some (str_int (randint env 1 1000000))
             else p_EXECUTION_ID ps"
  let ?r = "integral_trend env
       (case p_year_start ps of None \<Rightarrow> 2003 | Some y \<Rightarrow> y)
       (case p_year_end ps of None \<Rightarrow> 2015 | Some y \<Rightarrow> y)
       default_poly ?id"
  have run: "run env ps = ?r"
    using assms by (simp add: run_eq)
  have ex: "map_option (exports \<circ> snd) ?r
      = Some [export_config env
       (case p_year_start ps of None \<Rightarrow> 2003 | Some y \<Rightarrow> y)
       (case p_year_end ps of None \<Rightarrow> 2015 | Some y \<Rightarrow> y)
       default_poly ?id]"
    by (rule integral_trend_trace(5) [OF p q])
  show "map_option (map region \<circ> exports \<circ> snd) (run env ps)
                = Some [get_coords env default_poly]"
    unfolding run using ex by (cases ?r) (auto simp: export_config_def)
  have "map_option fst ?r = Some (Inr (''https://'' @ BUCKET @ ''.storage.googleapis.com/''
                          @ str_opt ?id @ ''.tif''))"
    by (rule integral_trend_trace(1) [OF p q])
  then show "map_option (isl \<circ> fst) (run env ps) = Some False"
    unfolding run by (cases ?r) auto
qed

text \<open>A request that gives nothing but the development flag.\<close>

theorem run_default_polygon_witness:
  "map_option (map region \<circ> exports \<circ> snd)
     (run (scripted_env [in_state ''READY'', in_state ''RUNNING'', in_state ''COMPLETED''])
        \<lparr> p_year_start = None, p_year_end = None, p_ENV = Some ''dev'',
          p_EXECUTION_ID = None, p_geojson = None \<rparr>)
     = Some [default_poly]
   \<and> map_option (isl \<circ> fst)
     (run (scripted_env [in_state ''READY'', in_state ''RUNNING'', in_state ''COMPLETED''])
        \<lparr> p_year_start = None, p_year_end = None, p_ENV = Some ''dev'',
          p_EXECUTION_ID = None, p_geojson = None \<rparr>)
     = Some False"
proof -
  let ?E = "scripted_env [in_state ''READY'', in_state ''RUNNING'', in_state ''COMPLETED'']"
  let ?ps = "\<lparr> p_year_start = None, p_year_end = None, p_ENV = Some ''dev'',
               p_EXECUTION_ID = None, p_geojson = None \<rparr>"
  have g: "p_geojson ?ps = None"
    by simp
  have h: "(\<forall>i<1. pending (tested (status ?E) i)) \<and> \<not> pending (tested (status ?E) 1)"
    by (simp add: example_simps)
  have c: "get_coords ?E default_poly = default_poly"
    by (simp add: scripted_env_def)
  from run_default_polygon [OF g, of ?E 1] h
  have "map_option (map region \<circ> exports \<circ> snd) (run ?E ?ps)
          = Some [get_coords ?E default_poly]
        \<and> map_option (isl \<circ> fst) (run ?E ?ps) = Some False"
    by blast
  then show ?thesis
    by (simp only: c)
qed

end
